theory Spec2Isabelle
  imports Complex_Main
begin

section \<open>The trial-guard engine of app.py\<close>

text \<open>
  The engine classes of \<^verbatim>\<open>app.py\<close> (\<^verbatim>\<open>TrialUser\<close>, \<^verbatim>\<open>TenantConfig\<close>,
  \<^verbatim>\<open>ResourceMonitor\<close>, \<^verbatim>\<open>TrialGuardEngine\<close>) as state-passing functions.

  Conventions of the embedding:
  \<^item> Python floats are read as real numbers (\<^typ>\<open>real\<close>): sums, products and
    comparisons are exact.
  \<^item> Every call of \<^verbatim>\<open>time.time()\<close> is a parameter of the function that makes it;
    \<^verbatim>\<open>process_event\<close> reads the clock up to five times and takes the five
    readings as a record.
  \<^item> The two values \<^verbatim>\<open>random.uniform\<close> may return are parameters as well.
  \<^item> An object mutated in place is returned updated; an exception is an \<open>Inl\<close>
    result, returned together with the state as the raise leaves it.
\<close>

subsection \<open>Decision constants\<close>

definition DECISION_ALLOW :: string where
  "DECISION_ALLOW = ''ALLOW''"

definition DECISION_THROTTLE :: string where
  "DECISION_THROTTLE = ''THROTTLE''"

definition DECISION_BLOCK :: string where
  "DECISION_BLOCK = ''BLOCK''"

definition DECISION_FLAG_SALES :: string where
  "DECISION_FLAG_SALES = ''FLAG_SALES''"

subsection \<open>Python helpers\<close>

datatype error = KeyError string

text \<open>\<^verbatim>\<open>d[k]\<close> on a plain dict: raises \<^verbatim>\<open>KeyError\<close> on a missing key.\<close>

definition dict_getitem :: "(string \<rightharpoonup> 'v) \<Rightarrow> string \<Rightarrow> error + 'v" where
  "dict_getitem d k = (case d k of None \<Rightarrow> Inl (KeyError k) | Some v \<Rightarrow> Inr v)"

text \<open>
  \<^verbatim>\<open>d[k]\<close> on a \<^verbatim>\<open>collections.defaultdict(list)\<close>: a missing key is inserted with
  the empty list, which is returned; nothing is raised.
\<close>

definition defaultdict_getitem ::
  "(string \<rightharpoonup> 'v list) \<Rightarrow> string \<Rightarrow> 'v list \<times> (string \<rightharpoonup> 'v list)" where
  "defaultdict_getitem d k = (case d k of None \<Rightarrow> ([], d(k \<mapsto> [])) | Some v \<Rightarrow> (v, d))"

text \<open>Truth value of an optional string: \<^verbatim>\<open>None\<close> and \<^verbatim>\<open>""\<close> are false.\<close>

fun truthy :: "string option \<Rightarrow> bool" where
  "truthy None = False"
| "truthy (Some r) = (r \<noteq> [])"

text \<open>\<^verbatim>\<open>xs[-5:]\<close>: the last five elements, or all of them when there are fewer.\<close>

definition last5 :: "'a list \<Rightarrow> 'a list" where
  "last5 xs = drop (length xs - 5) xs"

text \<open>
  \<^verbatim>\<open>f"{x:.2f}"\<close>: the value rounded to two decimals (a tie goes to the even
  neighbour), printed with a sign when negative, at least one digit before
  the point and exactly two after it.
\<close>

definition digit_char :: "nat \<Rightarrow> char" where
  "digit_char d = ''0123456789'' ! (d mod 10)"

fun str_nat :: "nat \<Rightarrow> string" where
  "str_nat n = (if n < 10 then [digit_char n] else str_nat (n div 10) @ [digit_char n])"

definition round_half_even :: "real \<Rightarrow> int" where
  "round_half_even y =
     (let f = \<lfloor>y\<rfloor>; d = y - of_int f
      in if d < 1 / 2 then f else if 1 / 2 < d then f + 1
         else if even f then f else f + 1)"

definition format_2f :: "real \<Rightarrow> string" where
  "format_2f x =
     (let n = nat (round_half_even (\<bar>x\<bar> * 100))
      in (if x < 0 then ''-'' else '''') @ str_nat (n div 100) @ ''.''
         @ [digit_char (n div 10), digit_char n])"

subsection \<open>TrialUser\<close>

record event =
  ev_timestamp :: real
  ev_type :: string
  ev_resource :: "string option"

record TrialUser =
  tenant_id :: string
  user_id :: string
  user_type :: string
  created_at :: real
  events :: "event list"
  api_count :: int
  feature_sequence :: "string list"
  last_active :: real
  session_durations :: "real list"
  estimated_cost :: real
  feature_value :: real
  abuse_score :: real
  roi_score :: real
  current_decision :: string
  reasons :: "string list"

text \<open>
  \<^verbatim>\<open>TrialUser.__init__\<close>. It reads the clock twice: \<open>t_created\<close> is the reading
  stored in \<^verbatim>\<open>created_at\<close>, \<open>t_active\<close> the one stored in \<^verbatim>\<open>last_active\<close>.
\<close>

definition TrialUser_init :: "real \<Rightarrow> real \<Rightarrow> string \<Rightarrow> string \<Rightarrow> string \<Rightarrow> TrialUser" where
  "TrialUser_init t_created t_active tid uid utype =
     \<lparr> tenant_id = tid, user_id = uid, user_type = utype,
       created_at = t_created, events = [],
       api_count = 0, feature_sequence = [],
       last_active = t_active, session_durations = [],
       estimated_cost = 0, feature_value = 0,
       abuse_score = 0, roi_score = 0,
       current_decision = DECISION_ALLOW, reasons = [] \<rparr>"

text \<open>
  \<^verbatim>\<open>TrialUser.add_event\<close>, with \<open>now\<close> its clock reading. \<^verbatim>\<open>pop(0)\<close> removes the
  first element; \<^verbatim>\<open>session_durations[-1] += gap\<close> is only reached on a
  non-empty list.
\<close>

definition add_event ::
  "real \<Rightarrow> string \<Rightarrow> string option \<Rightarrow> real \<Rightarrow> real \<Rightarrow> TrialUser \<Rightarrow> TrialUser" where
  "add_event now event_type resource_id cost val self =
     (let events1 = events self
            @ [\<lparr> ev_timestamp = now, ev_type = event_type, ev_resource = resource_id \<rparr>];
          api_count1 = api_count self + 1;
          seq1 = feature_sequence self @ [event_type];
          seq2 = (if length seq1 > 10 then tl seq1 else seq1);
          time_since_last = now - last_active self;
          durations1 =
            (if time_since_last > 300 then session_durations self @ [0]
             else if session_durations self \<noteq> []
               then butlast (session_durations self)
                    @ [last (session_durations self) + time_since_last]
             else session_durations self)
      in self\<lparr> events := events1, api_count := api_count1,
               feature_sequence := seq2, session_durations := durations1,
               last_active := now,
               estimated_cost := estimated_cost self + cost,
               feature_value := feature_value self + val \<rparr>)"

subsection \<open>TenantConfig\<close>

record TenantConfig =
  name :: string
  max_api_rate :: real
  max_cost_per_session :: real
  abuse_threshold :: real
  roi_min_threshold :: real
  weight_abuse :: real
  weight_cost :: real
  weight_value :: real

definition TenantConfig_init :: "string \<Rightarrow> TenantConfig" where
  "TenantConfig_init n =
     \<lparr> name = n, max_api_rate = 50, max_cost_per_session = 10,
       abuse_threshold = 7 / 10, roi_min_threshold = 0,
       weight_abuse = 5 / 10, weight_cost = 3 / 10, weight_value = 2 / 10 \<rparr>"

subsection \<open>ResourceMonitor\<close>

text \<open>
  \<^verbatim>\<open>usage_log\<close> is a \<^verbatim>\<open>defaultdict(list)\<close> from resource ids to timestamps.
  \<^verbatim>\<open>drain_alerts\<close> is created empty and never read or written again.
\<close>

record ResourceMonitor =
  usage_log :: "string \<rightharpoonup> real list"
  drain_alerts :: "string \<rightharpoonup> string"

definition ResourceMonitor_init :: ResourceMonitor where
  "ResourceMonitor_init = \<lparr> usage_log = Map.empty, drain_alerts = Map.empty \<rparr>"

text \<open>
  \<^verbatim>\<open>log_usage\<close>: the first statement reads the list (creating it when missing)
  and appends \<open>now\<close>; the second reads it again and stores the filtered copy.
\<close>

definition log_usage :: "real \<Rightarrow> string \<Rightarrow> ResourceMonitor \<Rightarrow> ResourceMonitor" where
  "log_usage now resource_id self =
     (let (l1, d1) = defaultdict_getitem (usage_log self) resource_id;
          d2 = d1(resource_id \<mapsto> l1 @ [now]);
          (l2, d3) = defaultdict_getitem d2 resource_id;
          d4 = d3(resource_id \<mapsto> filter (\<lambda>t. now - t < 60) l2)
      in self\<lparr> usage_log := d4 \<rparr>)"

text \<open>\<^verbatim>\<open>get_load\<close>: the length of the list, which the read creates when missing.\<close>

definition get_load :: "string \<Rightarrow> ResourceMonitor \<Rightarrow> nat \<times> ResourceMonitor" where
  "get_load resource_id self =
     (let (l, d1) = defaultdict_getitem (usage_log self) resource_id
      in (length l, self\<lparr> usage_log := d1 \<rparr>))"

subsection \<open>TrialGuardEngine\<close>

record Stats =
  total_events :: int
  blocked_events :: int
  revenue_saved :: real
  cost_saved :: real

text \<open>The four registries the engine keeps in \<^verbatim>\<open>st.session_state\<close>.\<close>

record Engine =
  users :: "string \<rightharpoonup> TrialUser"
  tenants :: "string \<rightharpoonup> TenantConfig"
  resource_monitor :: ResourceMonitor
  stats :: Stats

text \<open>\<^verbatim>\<open>TrialGuardEngine.__init__\<close> on a session state that holds none of the four.\<close>

definition TrialGuardEngine_init :: Engine where
  "TrialGuardEngine_init =
     \<lparr> users = Map.empty,
       tenants = [''Tenant_A'' \<mapsto> TenantConfig_init ''Tenant_A'',
                  ''Tenant_B'' \<mapsto> TenantConfig_init ''Tenant_B''],
       resource_monitor = ResourceMonitor_init,
       stats = \<lparr> total_events = 0, blocked_events = 0,
                 revenue_saved = 0, cost_saved = 0 \<rparr> \<rparr>"

text \<open>
  \<^verbatim>\<open>_calculate_scores\<close>, with \<open>now\<close> its clock reading. The three additions to
  \<^verbatim>\<open>raw_abuse_score\<close> are \<open>raw1\<close>, \<open>raw2\<close>, \<open>raw3\<close>.
\<close>

definition calculate_scores :: "real \<Rightarrow> TrialUser \<Rightarrow> TenantConfig \<Rightarrow> TrialUser" where
  "calculate_scores now user tenant =
     (let duration_mins = max ((now - created_at user) / 60) (1 / 10);
          api_rate = real_of_int (api_count user) / duration_mins;
          raw0 = 0;
          raw1 = (if api_rate > max_api_rate tenant then raw0 + 4 / 10 else raw0);
          raw2 = (if length (feature_sequence user) \<ge> 5
                     \<and> card (set (last5 (feature_sequence user))) = 1
                  then raw1 + 3 / 10 else raw1);
          raw3 = (if estimated_cost user > max_cost_per_session tenant
                  then raw2 + 4 / 10 else raw2);
          abuse = min raw3 1;
          net_value = feature_value user - estimated_cost user;
          risk_factor = 1 - abuse
      in user\<lparr> abuse_score := abuse, roi_score := net_value * risk_factor \<rparr>)"

text \<open>
  \<^verbatim>\<open>_make_decision\<close>. It returns the decision and the reasons; the resource
  monitor is returned too, since \<^verbatim>\<open>get_load\<close> may insert a key. \<open>hot\<close> is the
  resource of rule 2 when that rule fires.
\<close>

definition make_decision ::
  "TrialUser \<Rightarrow> TenantConfig \<Rightarrow> ResourceMonitor \<Rightarrow> (string \<times> string list) \<times> ResourceMonitor" where
  "make_decision user tenant mon =
     (if abuse_score user \<ge> abuse_threshold tenant then
        (if roi_score user < - 5 then
           ((DECISION_BLOCK,
             [''Critical Abuse Score ('' @ format_2f (abuse_score user) @ '')'',
              ''Negative ROI ('' @ format_2f (roi_score user) @ '')'']), mon)
         else if roi_score user > 5 then
           ((DECISION_THROTTLE, [''High Volume but High Value'']), mon)
         else
           ((DECISION_BLOCK, [''Abuse Threshold Exceeded'']), mon))
      else
        (let (hot, mon1) =
               (if events user \<noteq> [] then
                  (let last_resource = ev_resource (last (events user))
                   in if truthy last_resource then
                        (case last_resource of
                           None \<Rightarrow> (None, mon)
                         | Some r \<Rightarrow>
                             (let (load, m) = get_load r mon
                              in (if load > 100 then Some r else None, m)))
                      else (None, mon))
                else (None, mon))
         in case hot of
              Some r \<Rightarrow>
                ((DECISION_THROTTLE, [''Resource '' @ r @ '' Overloaded'']), mon1)
            | None \<Rightarrow>
                (if roi_score user > 10 \<and> abuse_score user < 2 / 10 then
                   ((DECISION_FLAG_SALES, [''High ROI User'']), mon1)
                 else
                   ((DECISION_ALLOW, [''Normal Behavior'']), mon1))))"

text \<open>The clock readings of one \<^verbatim>\<open>process_event\<close> call, in the order they are taken.\<close>

record Clock =
  t_created :: real
  t_active :: real
  t_log :: real
  t_event :: real
  t_score :: real

text \<open>
  What \<^verbatim>\<open>random.uniform(0.1, 0.5)\<close> and \<^verbatim>\<open>random.uniform(0.5, 2.0)\<close> return when
  they are called.
\<close>

record Rng =
  uniform_cost :: real
  uniform_value :: real

text \<open>
  The synthetic cost and value of an event (lines 136 and 137 of
  \<^verbatim>\<open>process_event\<close>). Each conditional expression calls \<^verbatim>\<open>random.uniform\<close> only
  in its first branch.
\<close>

definition base_cost :: "Rng \<Rightarrow> string \<Rightarrow> real" where
  "base_cost rnd event_type =
     (if event_type = ''API_CALL'' then uniform_cost rnd else 5 / 100)"

definition base_value :: "Rng \<Rightarrow> string \<Rightarrow> real" where
  "base_value rnd event_type =
     (if event_type = ''CHECKOUT_ATTEMPT'' then uniform_value rnd else 1 / 10)"

text \<open>
  Lines 139 to 143: with a resource id that counts as true, the usage is
  logged and the cost doubled when the load then exceeds 50.
\<close>

definition resource_cost ::
  "real \<Rightarrow> string option \<Rightarrow> real \<Rightarrow> ResourceMonitor \<Rightarrow> real \<times> ResourceMonitor" where
  "resource_cost now resource_id cost mon =
     (if truthy resource_id then
        (case resource_id of
           None \<Rightarrow> (cost, mon)
         | Some r \<Rightarrow>
             (let m1 = log_usage now r mon;
                  (load, m2) = get_load r m1
              in (if load > 50 then cost * 2 else cost, m2)))
      else (cost, mon))"

text \<open>Lines 157 to 162: the global statistics.\<close>

definition update_stats :: "string \<Rightarrow> real \<Rightarrow> real \<Rightarrow> Stats \<Rightarrow> Stats" where
  "update_stats decision cost val st =
     (let st1 = st\<lparr> total_events := total_events st + 1 \<rparr>
      in if decision = DECISION_BLOCK then
           st1\<lparr> blocked_events := blocked_events st1 + 1,
                cost_saved := cost_saved st1 + cost \<rparr>
         else if decision = DECISION_FLAG_SALES then
           st1\<lparr> revenue_saved := revenue_saved st1 + val * (1 / 10) \<rparr>
         else st1)"

text \<open>
  \<^verbatim>\<open>process_event\<close>. The result is \<open>Inr decision\<close>, or \<open>Inl e\<close> when a lookup
  raises; the second component is the engine state the call leaves behind in
  either case.
\<close>

definition process_event ::
  "Clock \<Rightarrow> Rng \<Rightarrow> string \<Rightarrow> string \<Rightarrow> string \<Rightarrow> string option \<Rightarrow> string \<Rightarrow> Engine
     \<Rightarrow> (error + string) \<times> Engine" where
  "process_event clk rnd tid uid event_type resource_id user_type_simulation self =
     (let users1 =
            (if uid \<notin> dom (users self) then
               (users self)(uid \<mapsto>
                 TrialUser_init (t_created clk) (t_active clk) tid uid user_type_simulation)
             else users self);
          s1 = self\<lparr> users := users1 \<rparr>
      in case dict_getitem users1 uid of
           Inl e \<Rightarrow> (Inl e, s1)
         | Inr user \<Rightarrow>
        (case dict_getitem (tenants s1) tid of
           Inl e \<Rightarrow> (Inl e, s1)
         | Inr tenant \<Rightarrow>
            (let cost0 = base_cost rnd event_type;
                 val = base_value rnd event_type;
                 (cost, mon1) =
                    resource_cost (t_log clk) resource_id cost0 (resource_monitor s1);
                 user1 = add_event (t_event clk) event_type resource_id cost val user;
                 user2 = calculate_scores (t_score clk) user1 tenant;
                 ((decision, rs), mon2) = make_decision user2 tenant mon1;
                 user3 = user2\<lparr> current_decision := decision, reasons := rs \<rparr>
             in (Inr decision,
                 s1\<lparr> users := users1(uid \<mapsto> user3),
                     resource_monitor := mon2,
                     stats := update_stats decision cost val (stats s1) \<rparr>))))"

section \<open>Call sequences\<close>

text \<open>
  The calls a caller can make on one \<^verbatim>\<open>TrialUser\<close>: \<^verbatim>\<open>add_event\<close> and
  \<^verbatim>\<open>_calculate_scores\<close>, each with its clock reading and arguments.
\<close>

datatype user_op =
    AddEvent real string "string option" real real
  | Calculate real TenantConfig

fun apply_user_op :: "user_op \<Rightarrow> TrialUser \<Rightarrow> TrialUser" where
  "apply_user_op (AddEvent now ty r c v) u = add_event now ty r c v u"
| "apply_user_op (Calculate now t) u = calculate_scores now u t"

fun run_user_ops :: "user_op list \<Rightarrow> TrialUser \<Rightarrow> TrialUser" where
  "run_user_ops [] u = u"
| "run_user_ops (p # ps) u = run_user_ops ps (apply_user_op p u)"

text \<open>The event types of the \<^verbatim>\<open>add_event\<close> calls of a sequence, in arrival order.\<close>

fun event_types :: "user_op list \<Rightarrow> string list" where
  "event_types [] = []"
| "event_types (AddEvent now ty r c v # ps) = ty # event_types ps"
| "event_types (Calculate now t # ps) = event_types ps"

text \<open>
  The clock readings of the \<^verbatim>\<open>add_event\<close> calls of a sequence never step back:
  each is at least the one before it, the first at least \<open>t\<close>.
\<close>

fun clock_monotone :: "real \<Rightarrow> user_op list \<Rightarrow> bool" where
  "clock_monotone t [] = True"
| "clock_monotone t (AddEvent now ty r c v # ps) = (t \<le> now \<and> clock_monotone now ps)"
| "clock_monotone t (Calculate now tc # ps) = clock_monotone t ps"

text \<open>
  The calls a caller can make on the \<^verbatim>\<open>ResourceMonitor\<close>, and the list a
  resource currently holds (empty when the key is missing).
\<close>

definition retained :: "string \<Rightarrow> ResourceMonitor \<Rightarrow> real list" where
  "retained r m = (case usage_log m r of None \<Rightarrow> [] | Some l \<Rightarrow> l)"

datatype monitor_op = LogUsage real string | GetLoad string

fun apply_monitor_op :: "monitor_op \<Rightarrow> ResourceMonitor \<Rightarrow> ResourceMonitor" where
  "apply_monitor_op (LogUsage now r) m = log_usage now r m"
| "apply_monitor_op (GetLoad r) m = snd (get_load r m)"

fun run_monitor_ops :: "monitor_op list \<Rightarrow> ResourceMonitor \<Rightarrow> ResourceMonitor" where
  "run_monitor_ops [] m = m"
| "run_monitor_ops (p # ps) m = run_monitor_ops ps (apply_monitor_op p m)"

text \<open>The clock reading of the most recent \<^verbatim>\<open>log_usage\<close> call for a resource.\<close>

fun last_log :: "string \<Rightarrow> monitor_op list \<Rightarrow> real option" where
  "last_log r [] = None"
| "last_log r (LogUsage now r' # ps) =
     (case last_log r ps of
        Some t \<Rightarrow> Some t
      | None \<Rightarrow> if r' = r then Some now else None)"
| "last_log r (GetLoad r' # ps) = last_log r ps"

section \<open>The scoring formula in the words of the specification\<close>

text \<open>
  The abuse score as the specification words it, to be compared with
  \<^verbatim>\<open>_calculate_scores\<close>: the sum of 0.4 when the event count divided by
  max(minutes since creation, 0.1) exceeds the tenant's rate limit, 0.3 when
  the sequence has at least five entries and its last five are all identical,
  and 0.4 when the estimated cost exceeds the tenant's cost limit.
\<close>

definition all_identical :: "'a list \<Rightarrow> bool" where
  "all_identical xs = (\<forall>x \<in> set xs. \<forall>y \<in> set xs. x = y)"

definition spec_abuse_sum :: "real \<Rightarrow> TrialUser \<Rightarrow> TenantConfig \<Rightarrow> real" where
  "spec_abuse_sum now u t =
     (if real_of_int (api_count u) / max ((now - created_at u) / 60) (1 / 10) > max_api_rate t
      then 4 / 10 else 0)
     + (if length (feature_sequence u) \<ge> 5 \<and> all_identical (take 5 (rev (feature_sequence u)))
        then 3 / 10 else 0)
     + (if estimated_cost u > max_cost_per_session t then 4 / 10 else 0)"

section \<open>Example states\<close>

text \<open>A user who sends six \<^verbatim>\<open>API_CALL\<close> events one second after being created.\<close>

definition burst_user :: TrialUser where
  "burst_user =
     run_user_ops
       [AddEvent 1 ''API_CALL'' None (1 / 10) (2 / 10),
        AddEvent 1 ''API_CALL'' None (1 / 10) (2 / 10),
        AddEvent 1 ''API_CALL'' None (1 / 10) (2 / 10),
        AddEvent 1 ''API_CALL'' None (1 / 10) (2 / 10),
        AddEvent 1 ''API_CALL'' None (1 / 10) (2 / 10),
        AddEvent 1 ''API_CALL'' None (1 / 10) (2 / 10)]
       (TrialUser_init 0 0 ''Tenant_A'' ''u1'' ''NORMAL'')"

definition example_clock :: Clock where
  "example_clock = \<lparr> t_created = 10, t_active = 10, t_log = 10, t_event = 10, t_score = 10 \<rparr>"

definition rng_low :: Rng where
  "rng_low = \<lparr> uniform_cost = 1 / 10, uniform_value = 1 \<rparr>"

definition rng_high :: Rng where
  "rng_high = \<lparr> uniform_cost = 5 / 10, uniform_value = 1 \<rparr>"

text \<open>A user whose two scores are set to given values.\<close>

definition gate_user :: "real \<Rightarrow> real \<Rightarrow> TrialUser" where
  "gate_user a r =
     (TrialUser_init 0 0 ''Tenant_A'' ''u1'' ''NORMAL'')\<lparr> abuse_score := a, roi_score := r \<rparr>"

section \<open>Properties\<close>

subsection \<open>The bounded feature sequence\<close>

lemma feature_sequence_add_event:
  "feature_sequence (add_event now ty r c v u) =
     (if length (feature_sequence u) \<ge> 10 then tl (feature_sequence u @ [ty])
      else feature_sequence u @ [ty])"
  by (simp add: add_event_def Let_def)

lemma feature_sequence_calculate_scores:
  "feature_sequence (calculate_scores now u t) = feature_sequence u"
  by (simp add: calculate_scores_def Let_def)

lemma feature_sequence_step:
  assumes "length (feature_sequence u) \<le> 10"
  shows "feature_sequence (add_event now ty r c v u) =
           drop (length (feature_sequence u @ [ty]) - 10) (feature_sequence u @ [ty])"
proof (cases "length (feature_sequence u) = 10")
  case True
  then have "feature_sequence u \<noteq> []" by auto
  with True show ?thesis
    by (simp add: feature_sequence_add_event drop_Suc)
next
  case False
  with assms have "length (feature_sequence u) < 10" by simp
  then show ?thesis by (simp add: feature_sequence_add_event)
qed

lemma drop_keep_last:
  "drop (length (drop (length xs - n) xs @ ys) - n) (drop (length xs - n) xs @ ys) =
   drop (length (xs @ ys) - n) (xs @ ys)"
proof (cases "length xs \<le> n")
  case True
  then show ?thesis by simp
next
  case False
  then have "length (drop (length xs - n) xs) = n" by simp
  then show ?thesis using False by (simp add: add.commute)
qed

lemma feature_sequence_run:
  "length (feature_sequence u) \<le> 10 \<Longrightarrow>
   feature_sequence (run_user_ops ps u) =
     drop (length (feature_sequence u @ event_types ps) - 10)
          (feature_sequence u @ event_types ps)"
proof (induction ps arbitrary: u)
  case Nil
  then show ?case by simp
next
  case (Cons p ps)
  show ?case
  proof (cases p)
    case (AddEvent now ty r c v)
    let ?u = "add_event now ty r c v u"
    let ?xs = "feature_sequence u @ [ty]"
    have fs: "feature_sequence ?u = drop (length ?xs - 10) ?xs"
      using Cons.prems by (rule feature_sequence_step)
    then have len: "length (feature_sequence ?u) \<le> 10" by simp
    have "feature_sequence (run_user_ops ps ?u) =
            drop (length (feature_sequence ?u @ event_types ps) - 10)
                 (feature_sequence ?u @ event_types ps)"
      using len by (rule Cons.IH)
    also have "\<dots> = drop (length (?xs @ event_types ps) - 10) (?xs @ event_types ps)"
      unfolding fs using drop_keep_last [of ?xs 10 "event_types ps"] by simp
    finally show ?thesis using AddEvent by simp
  next
    case (Calculate now t)
    then show ?thesis
      using Cons.IH [of "calculate_scores now u t"] Cons.prems
      by (simp add: feature_sequence_calculate_scores)
  qed
qed

text \<open>
  C6. Start from a user as \<^verbatim>\<open>TrialUser(...)\<close> creates it and make any sequence of
  calls (\<^verbatim>\<open>add_event\<close>, possibly interleaved with score calculations). Then
  \<^verbatim>\<open>feature_sequence\<close> is exactly the event types of the most recent at most
  ten \<^verbatim>\<open>add_event\<close> calls, in arrival order (so the oldest entries are the ones
  evicted), and its length never exceeds ten.
\<close>

theorem feature_sequence_fifo:
  "feature_sequence (run_user_ops ps (TrialUser_init tc ta tid uid ut)) =
     drop (length (event_types ps) - 10) (event_types ps)
   \<and> length (feature_sequence (run_user_ops ps (TrialUser_init tc ta tid uid ut))) \<le> 10"
proof -
  have "feature_sequence (TrialUser_init tc ta tid uid ut) = []"
    by (simp add: TrialUser_init_def)
  then have "feature_sequence (run_user_ops ps (TrialUser_init tc ta tid uid ut)) =
     drop (length (event_types ps) - 10) (event_types ps)"
    using feature_sequence_run [of "TrialUser_init tc ta tid uid ut" ps] by simp
  then show ?thesis by simp
qed

subsection \<open>The range of the abuse score\<close>

lemma abuse_score_calculate_scores:
  "0 \<le> abuse_score (calculate_scores now u t) \<and> abuse_score (calculate_scores now u t) \<le> 1"
  by (simp add: calculate_scores_def Let_def)

lemma abuse_score_add_event: "abuse_score (add_event now ty r c v u) = abuse_score u"
  by (simp add: add_event_def Let_def)

lemma abuse_score_run:
  "0 \<le> abuse_score u \<and> abuse_score u \<le> 1 \<Longrightarrow>
   0 \<le> abuse_score (run_user_ops ps u) \<and> abuse_score (run_user_ops ps u) \<le> 1"
proof (induction ps arbitrary: u)
  case Nil
  then show ?case by simp
next
  case (Cons p ps)
  have "0 \<le> abuse_score (apply_user_op p u) \<and> abuse_score (apply_user_op p u) \<le> 1"
    using Cons.prems
    by (cases p) (simp_all add: abuse_score_add_event abuse_score_calculate_scores)
  then show ?case using Cons.IH by simp
qed

text \<open>
  C5. For a user as \<^verbatim>\<open>TrialUser(...)\<close> creates it, after every sequence of
  \<^verbatim>\<open>add_event\<close> and \<^verbatim>\<open>_calculate_scores\<close> calls (any clock readings, any
  arguments, any tenant configurations), \<open>0 \<le> abuse_score \<le> 1\<close>.
\<close>

theorem abuse_score_bounds:
  "0 \<le> abuse_score (run_user_ops ps (TrialUser_init tc ta tid uid ut))
   \<and> abuse_score (run_user_ops ps (TrialUser_init tc ta tid uid ut)) \<le> 1"
  by (rule abuse_score_run) (simp add: TrialUser_init_def)

subsection \<open>The resource monitor\<close>

lemma retained_log_usage_same:
  "retained r (log_usage now r m) = filter (\<lambda>t. now - t < 60) (retained r m @ [now])"
  by (simp add: retained_def log_usage_def defaultdict_getitem_def split: option.splits)

lemma retained_log_usage_other:
  "r' \<noteq> r \<Longrightarrow> retained r (log_usage now r' m) = retained r m"
  by (simp add: retained_def log_usage_def defaultdict_getitem_def split: option.splits)

lemma get_load_eq:
  "get_load r m =
     (length (retained r m),
      m\<lparr> usage_log := (if r \<in> dom (usage_log m) then usage_log m
                        else (usage_log m)(r \<mapsto> [])) \<rparr>)"
  by (auto simp add: retained_def get_load_def defaultdict_getitem_def split: option.splits)

lemma retained_get_load: "retained r (snd (get_load r' m)) = retained r m"
  by (simp add: get_load_eq retained_def dom_def)

lemma retained_unlogged:
  "last_log r ps = None \<Longrightarrow> retained r (run_monitor_ops ps m) = retained r m"
proof (induction ps arbitrary: m)
  case Nil
  then show ?case by simp
next
  case (Cons p ps)
  show ?case
  proof (cases p)
    case (LogUsage now r')
    with Cons.prems have "last_log r ps = None" and "r' \<noteq> r"
      by (auto split: option.splits if_splits)
    then show ?thesis
      using Cons.IH [of "log_usage now r' m"] LogUsage
      by (simp add: retained_log_usage_other)
  next
    case (GetLoad r')
    with Cons.prems have "last_log r ps = None" by simp
    then show ?thesis
      using Cons.IH [of "snd (get_load r' m)"] GetLoad
      by (simp add: retained_get_load)
  qed
qed

lemma retained_window:
  "last_log r ps = Some T \<Longrightarrow> \<forall>t \<in> set (retained r (run_monitor_ops ps m)). T - t < 60"
proof (induction ps arbitrary: m)
  case Nil
  then show ?case by simp
next
  case (Cons p ps)
  show ?case
  proof (cases p)
    case (LogUsage now r')
    show ?thesis
    proof (cases "last_log r ps")
      case None
      with Cons.prems LogUsage have eq: "r' = r" "T = now"
        by (auto split: if_splits)
      have "retained r (run_monitor_ops ps (log_usage now r m)) = retained r (log_usage now r m)"
        using None by (rule retained_unlogged)
      then show ?thesis using LogUsage eq
        by (simp add: retained_log_usage_same)
    next
      case (Some t)
      with Cons.prems LogUsage have "last_log r ps = Some T" by simp
      then show ?thesis using Cons.IH LogUsage by simp
    qed
  next
    case (GetLoad r')
    with Cons.prems have "last_log r ps = Some T" by simp
    then show ?thesis using Cons.IH GetLoad by simp
  qed
qed

text \<open>
  C9. \<^verbatim>\<open>log_usage\<close> appends the clock reading to the resource's list and then
  keeps the entries \<open>t\<close> with \<open>now - t < 60\<close>, so right after the call no retained
  entry is 60 seconds old or older. \<^verbatim>\<open>get_load\<close> returns the length of the
  retained list and leaves the list as it is. Hence, after any sequence of
  \<^verbatim>\<open>log_usage\<close> and \<^verbatim>\<open>get_load\<close> calls (on any resources, from any monitor
  state) whose most recent \<^verbatim>\<open>log_usage\<close> for resource \<open>r\<close> read the clock at \<open>T\<close>,
  \<^verbatim>\<open>get_load(r)\<close> counts only entries \<open>t\<close> with \<open>T - t < 60\<close>.
\<close>

theorem log_usage_window:
  "retained r (log_usage now r m) = filter (\<lambda>t. now - t < 60) (retained r m @ [now])
   \<and> (\<forall>t \<in> set (retained r (log_usage now r m)). now - t < 60)
   \<and> fst (get_load r m) = length (retained r m)
   \<and> retained r (snd (get_load r m)) = retained r m
   \<and> (last_log r ps = Some T \<longrightarrow>
        (\<forall>t \<in> set (retained r (run_monitor_ops ps m)). T - t < 60)
        \<and> fst (get_load r (run_monitor_ops ps m)) = length (retained r (run_monitor_ops ps m)))"
proof -
  have a: "retained r (log_usage now r m) = filter (\<lambda>t. now - t < 60) (retained r m @ [now])"
    by (rule retained_log_usage_same)
  have b: "\<forall>t \<in> set (retained r (log_usage now r m)). now - t < 60"
    by (simp add: a)
  have c: "fst (get_load r m) = length (retained r m)"
    by (simp add: get_load_eq)
  have d: "retained r (snd (get_load r m)) = retained r m"
    by (rule retained_get_load)
  have e: "last_log r ps = Some T \<longrightarrow>
        (\<forall>t \<in> set (retained r (run_monitor_ops ps m)). T - t < 60)
        \<and> fst (get_load r (run_monitor_ops ps m)) = length (retained r (run_monitor_ops ps m))"
    using retained_window [of r ps T m] by (simp add: get_load_eq)
  from a b c d e show ?thesis by blast
qed

theorem log_usage_window_witness:
  "last_log ''R1'' [LogUsage 0 ''R1'', LogUsage 100 ''R1'', GetLoad ''R2'', LogUsage 130 ''R1'', LogUsage 500 ''R2'']
     = Some 130
   \<and> retained ''R1'' (run_monitor_ops [LogUsage 0 ''R1'', LogUsage 100 ''R1'', GetLoad ''R2'', LogUsage 130 ''R1'', LogUsage 500 ''R2'']
        ResourceMonitor_init) = [100, 130]
   \<and> list_all (\<lambda>t. 130 - t < 60) (retained ''R1'' (run_monitor_ops [LogUsage 0 ''R1'', LogUsage 100 ''R1'', GetLoad ''R2'', LogUsage 130 ''R1'', LogUsage 500 ''R2'']
        ResourceMonitor_init))
   \<and> fst (get_load ''R1'' (run_monitor_ops [LogUsage 0 ''R1'', LogUsage 100 ''R1'', GetLoad ''R2'', LogUsage 130 ''R1'', LogUsage 500 ''R2'']
        ResourceMonitor_init)) = 2"
proof -
  let ?ps = "[LogUsage 0 ''R1'', LogUsage 100 ''R1'', GetLoad ''R2'', LogUsage 130 ''R1'', LogUsage 500 ''R2'']"
  have l: "last_log ''R1'' ?ps = Some 130" by simp
  have r: "retained ''R1'' (run_monitor_ops ?ps ResourceMonitor_init) = [100, 130]"
    by (simp add: retained_def log_usage_def get_load_def defaultdict_getitem_def
        ResourceMonitor_init_def)
  from log_usage_window [of "''R1''" 0 ResourceMonitor_init ?ps 130] l
  have "(\<forall>t \<in> set (retained ''R1'' (run_monitor_ops ?ps ResourceMonitor_init)). 130 - t < 60)
    \<and> fst (get_load ''R1'' (run_monitor_ops ?ps ResourceMonitor_init))
        = length (retained ''R1'' (run_monitor_ops ?ps ResourceMonitor_init))"
    by blast
  with l r show ?thesis by (simp add: list_all_iff)
qed

text \<open>
  C10. \<^verbatim>\<open>get_load\<close> never raises: for every resource id and monitor state it
  returns the length of the retained list (the \<^verbatim>\<open>defaultdict\<close> inserts an empty
  list for a missing key). For a resource id that no \<^verbatim>\<open>log_usage\<close> call of the
  monitor's history was made for, it returns 0.
\<close>

theorem get_load_total:
  "get_load r m =
     (length (retained r m),
      m\<lparr> usage_log := (if r \<in> dom (usage_log m) then usage_log m
                        else (usage_log m)(r \<mapsto> [])) \<rparr>)
   \<and> (last_log r ps = None \<longrightarrow>
        fst (get_load r (run_monitor_ops ps ResourceMonitor_init)) = 0)"
proof -
  have "retained r ResourceMonitor_init = []"
    by (simp add: retained_def ResourceMonitor_init_def)
  then have "last_log r ps = None \<longrightarrow>
        fst (get_load r (run_monitor_ops ps ResourceMonitor_init)) = 0"
    using retained_unlogged [of r ps ResourceMonitor_init] by (simp add: get_load_eq)
  then show ?thesis using get_load_eq [of r m] by blast
qed

theorem get_load_total_witness:
  "last_log ''R9'' [LogUsage 1 ''R1'', GetLoad ''R9'', LogUsage 2 ''R2''] = None
   \<and> fst (get_load ''R9''
        (run_monitor_ops [LogUsage 1 ''R1'', GetLoad ''R9'', LogUsage 2 ''R2'']
           ResourceMonitor_init)) = 0"
proof -
  let ?ps = "[LogUsage 1 ''R1'', GetLoad ''R9'', LogUsage 2 ''R2'']"
  have l: "last_log ''R9'' ?ps = None" by simp
  with get_load_total [of "''R9''" ResourceMonitor_init ?ps] show ?thesis by blast
qed

subsection \<open>Session durations\<close>

lemma session_durations_add_event:
  "session_durations (add_event now ty r c v u) =
     (if now - last_active u > 300 then session_durations u @ [0]
      else if session_durations u \<noteq> []
        then butlast (session_durations u)
             @ [last (session_durations u) + (now - last_active u)]
      else [])"
  by (simp add: add_event_def Let_def)

lemma session_durations_nonneg_step:
  assumes "\<forall>d \<in> set (session_durations u). 0 \<le> d" and "last_active u \<le> now"
  shows "\<forall>d \<in> set (session_durations (add_event now ty r c v u)). 0 \<le> d"
proof (cases "session_durations u = []")
  case True
  then show ?thesis by (simp add: session_durations_add_event)
next
  case False
  then have "last (session_durations u) \<in> set (session_durations u)" by simp
  with assms have "0 \<le> last (session_durations u) + (now - last_active u)" by fastforce
  moreover have "\<forall>d \<in> set (butlast (session_durations u)). 0 \<le> d"
    using assms(1) by (meson in_set_butlastD)
  ultimately show ?thesis using assms(1) by (auto simp add: session_durations_add_event)
qed

lemma last_active_add_event: "last_active (add_event now ty r c v u) = now"
  by (simp add: add_event_def Let_def)

lemma calculate_scores_sessions:
  "session_durations (calculate_scores now u t) = session_durations u"
  "last_active (calculate_scores now u t) = last_active u"
  by (simp_all add: calculate_scores_def Let_def)

lemma session_durations_nonneg_run:
  "list_all (\<lambda>d. 0 \<le> d) (session_durations u) \<Longrightarrow> clock_monotone (last_active u) ps \<Longrightarrow>
   list_all (\<lambda>d. 0 \<le> d) (session_durations (run_user_ops ps u))"
proof (induction ps arbitrary: u)
  case Nil
  then show ?case by simp
next
  case (Cons p ps)
  show ?case
  proof (cases p)
    case (AddEvent now ty r c v)
    with Cons.prems have le: "last_active u \<le> now" and mono: "clock_monotone now ps"
      by simp_all
    have "list_all (\<lambda>d. 0 \<le> d) (session_durations (add_event now ty r c v u))"
      using session_durations_nonneg_step [of u now ty r c v] Cons.prems(1) le
      by (simp add: list_all_iff)
    then show ?thesis
      using Cons.IH [of "add_event now ty r c v u"] mono AddEvent
      by (simp add: last_active_add_event)
  next
    case (Calculate now t)
    then show ?thesis
      using Cons.IH [of "calculate_scores now u t"] Cons.prems
      by (simp add: calculate_scores_sessions)
  qed
qed

lemma session_durations_nonneg_fresh:
  "clock_monotone ta ps \<Longrightarrow>
   list_all (\<lambda>d. 0 \<le> d) (session_durations (run_user_ops ps (TrialUser_init tc ta tid uid ut)))"
  by (rule session_durations_nonneg_run) (simp_all add: TrialUser_init_def)

text \<open>
  C8. The first \<^verbatim>\<open>add_event\<close> on a user as \<^verbatim>\<open>TrialUser(...)\<close> creates it leaves
  \<^verbatim>\<open>session_durations\<close> equal to \<open>[0]\<close> (gap above 300 seconds) or empty, so
  without a negative entry. In general \<^verbatim>\<open>add_event\<close> appends a 0 when the gap
  since \<^verbatim>\<open>last_active\<close> exceeds 300, adds the gap to the last entry when there
  is one and the gap is at most 300, and creates no entry otherwise. Beyond
  the first event: along any sequence of calls whose clock readings never
  step back, no entry is ever negative.
\<close>

theorem session_durations_first_event:
  "session_durations (add_event now ty r c v (TrialUser_init tc ta tid uid ut)) =
     (if now - ta > 300 then [0] else [])
   \<and> list_all (\<lambda>d. 0 \<le> d)
        (session_durations (add_event now ty r c v (TrialUser_init tc ta tid uid ut)))
   \<and> session_durations (add_event now ty r c v u) =
       (if now - last_active u > 300 then session_durations u @ [0]
        else if session_durations u \<noteq> []
          then butlast (session_durations u)
               @ [last (session_durations u) + (now - last_active u)]
        else [])
   \<and> (clock_monotone ta ps \<longrightarrow>
        list_all (\<lambda>d. 0 \<le> d)
          (session_durations (run_user_ops ps (TrialUser_init tc ta tid uid ut))))"
proof -
  have a: "session_durations (add_event now ty r c v (TrialUser_init tc ta tid uid ut)) =
     (if now - ta > 300 then [0] else [])"
    by (simp add: session_durations_add_event TrialUser_init_def)
  have b: "list_all (\<lambda>d. 0 \<le> d)
        (session_durations (add_event now ty r c v (TrialUser_init tc ta tid uid ut)))"
    by (simp add: a)
  show ?thesis
    using a b session_durations_add_event [of now ty r c v u]
      session_durations_nonneg_fresh [of ta ps tc tid uid ut]
    by blast
qed

theorem session_durations_first_event_witness:
  "clock_monotone 0
     [AddEvent 1000 ''LOGIN'' None 0 0, Calculate 1001 (TenantConfig_init ''T''),
      AddEvent 1100 ''LOGIN'' None 0 0]
   \<and> session_durations (run_user_ops
       [AddEvent 1000 ''LOGIN'' None 0 0, Calculate 1001 (TenantConfig_init ''T''),
        AddEvent 1100 ''LOGIN'' None 0 0]
       (TrialUser_init 0 0 ''T'' ''u'' ''NORMAL'')) = [100]
   \<and> list_all (\<lambda>d. 0 \<le> d) (session_durations (run_user_ops
       [AddEvent 1000 ''LOGIN'' None 0 0, Calculate 1001 (TenantConfig_init ''T''),
        AddEvent 1100 ''LOGIN'' None 0 0]
       (TrialUser_init 0 0 ''T'' ''u'' ''NORMAL'')))"
proof -
  let ?ps = "[AddEvent 1000 ''LOGIN'' None 0 0, Calculate 1001 (TenantConfig_init ''T''),
      AddEvent 1100 ''LOGIN'' None 0 0]"
  have m: "clock_monotone 0 ?ps" by simp
  have s: "session_durations (run_user_ops ?ps (TrialUser_init 0 0 ''T'' ''u'' ''NORMAL'')) = [100]"
    by (simp add: add_event_def calculate_scores_def TrialUser_init_def Let_def)
  from session_durations_first_event [of 0 "''x''" None 0 0 0 0 "''T''" "''u''" "''NORMAL''" _ ?ps] m
  have "list_all (\<lambda>d. 0 \<le> d)
          (session_durations (run_user_ops ?ps (TrialUser_init 0 0 ''T'' ''u'' ''NORMAL'')))"
    by blast
  with m s show ?thesis by blast
qed

subsection \<open>The scoring formula\<close>

lemma card_set_one: "card (set xs) = 1 \<longleftrightarrow> xs \<noteq> [] \<and> all_identical xs"
proof
  assume "card (set xs) = 1"
  then obtain a where "set xs = {a}" by (auto simp: card_1_singleton_iff)
  then show "xs \<noteq> [] \<and> all_identical xs" by (auto simp: all_identical_def)
next
  assume h: "xs \<noteq> [] \<and> all_identical xs"
  then obtain a where "a \<in> set xs" by (cases xs) auto
  with h have "set xs = {a}" by (auto simp: all_identical_def)
  then show "card (set xs) = 1" by simp
qed

lemma last5_rev: "set (last5 xs) = set (take 5 (rev xs))"
  by (simp add: last5_def take_rev)

lemma all_identical_last5: "all_identical (last5 xs) = all_identical (take 5 (rev xs))"
  by (simp add: all_identical_def last5_rev)

lemma last5_nonempty: "5 \<le> length xs \<Longrightarrow> last5 xs \<noteq> []"
  by (auto simp add: last5_def)

lemma repetition_signal:
  "(length xs \<ge> 5 \<and> card (set (last5 xs)) = 1)
     = (length xs \<ge> 5 \<and> all_identical (take 5 (rev xs)))"
  using last5_nonempty [of xs] card_set_one [of "last5 xs"] all_identical_last5 [of xs]
  by auto

lemma abuse_score_eq:
  "abuse_score (calculate_scores now u t) = min (spec_abuse_sum now u t) 1"
  unfolding calculate_scores_def spec_abuse_sum_def Let_def repetition_signal
  by simp

lemma roi_score_eq:
  "roi_score (calculate_scores now u t) =
     (feature_value u - estimated_cost u) * (1 - abuse_score (calculate_scores now u t))"
  by (simp add: calculate_scores_def Let_def)


lemma burst_user_fields:
  "api_count burst_user = 6" "created_at burst_user = 0"
  "feature_sequence burst_user =
     [''API_CALL'', ''API_CALL'', ''API_CALL'', ''API_CALL'', ''API_CALL'', ''API_CALL'']"
  "estimated_cost burst_user = 6 / 10" "feature_value burst_user = 12 / 10"
  by (simp_all add: burst_user_def add_event_def TrialUser_init_def Let_def)



lemma calculate_scores_fields:
  "api_count (calculate_scores now u t) = api_count u"
  "created_at (calculate_scores now u t) = created_at u"
  "feature_sequence (calculate_scores now u t) = feature_sequence u"
  "estimated_cost (calculate_scores now u t) = estimated_cost u"
  "feature_value (calculate_scores now u t) = feature_value u"
  by (simp_all add: calculate_scores_def Let_def)

lemma calculate_scores_twice:
  "calculate_scores now' (calculate_scores now u t) t' = calculate_scores now' u t'"
  by (simp add: calculate_scores_def Let_def)

text \<open>
  C3, as amended. \<^verbatim>\<open>_calculate_scores\<close> reads the clock, so the scores are a
  function of the profile, the tenant configuration and the clock reading.
  Two calls in succession at the same clock reading give the same profile and
  the same two scores; at any readings, the second call's result does not
  depend on what the first one stored.
\<close>

theorem calculate_scores_idempotent:
  "calculate_scores now' (calculate_scores now u t) t' = calculate_scores now' u t'
   \<and> calculate_scores now (calculate_scores now u t) t = calculate_scores now u t
   \<and> abuse_score (calculate_scores now (calculate_scores now u t) t)
       = abuse_score (calculate_scores now u t)
   \<and> roi_score (calculate_scores now (calculate_scores now u t) t)
       = roi_score (calculate_scores now u t)"
  by (simp add: calculate_scores_twice)

text \<open>
  C3, as stated, fails: for the user who sent six events within one second of being created,
  a calculation at second 1 gives abuse score 0.7 (rate 60 per minute), and a
  second calculation at second 60, with no event in between, gives 0.3
  (rate 6 per minute); the ROI scores differ too.
\<close>

theorem calculate_scores_clock_counterexample:
  "abuse_score (calculate_scores 1 burst_user (TenantConfig_init ''Tenant_A'')) = 7 / 10
   \<and> abuse_score (calculate_scores 60
        (calculate_scores 1 burst_user (TenantConfig_init ''Tenant_A''))
        (TenantConfig_init ''Tenant_A'')) = 3 / 10
   \<and> roi_score (calculate_scores 1 burst_user (TenantConfig_init ''Tenant_A''))
      \<noteq> roi_score (calculate_scores 60
        (calculate_scores 1 burst_user (TenantConfig_init ''Tenant_A''))
        (TenantConfig_init ''Tenant_A''))"
  by (simp add: calculate_scores_twice abuse_score_eq roi_score_eq spec_abuse_sum_def
      burst_user_fields TenantConfig_init_def all_identical_def)

subsection \<open>The decision chain\<close>

lemma format_2f_examples:
  "format_2f 1 = ''1.00''" "format_2f (- 6) = ''-6.00''" "format_2f (162 / 10) = ''16.20''"
  "format_2f (1 / 8) = ''0.12''" "format_2f (- 123456 / 1000) = ''-123.46''"
  by (simp_all add: format_2f_def round_half_even_def digit_char_def Let_def)

text \<open>
  C7. Whenever \<open>abuse_score \<ge> abuse_threshold\<close>, \<^verbatim>\<open>_make_decision\<close> returns the
  abuse-gate outcome: BLOCK with the two formatted reasons when
  \<open>roi_score < -5\<close>, THROTTLE with "High Volume but High Value" when
  \<open>roi_score > 5\<close>, BLOCK with "Abuse Threshold Exceeded" otherwise. No later
  rule runs: the result does not depend on the events or on the resource
  monitor, which is returned untouched, and the decision is never FLAG_SALES,
  also for a user who meets the sales condition.
\<close>

theorem abuse_gate_priority:
  "abuse_score u \<ge> abuse_threshold t \<Longrightarrow>
   make_decision u t mon =
     ((if roi_score u < - 5 then
         (DECISION_BLOCK,
          [''Critical Abuse Score ('' @ format_2f (abuse_score u) @ '')'',
           ''Negative ROI ('' @ format_2f (roi_score u) @ '')''])
       else if roi_score u > 5 then (DECISION_THROTTLE, [''High Volume but High Value''])
       else (DECISION_BLOCK, [''Abuse Threshold Exceeded''])),
      mon)
   \<and> fst (fst (make_decision u t mon)) \<noteq> DECISION_FLAG_SALES"
  by (simp add: make_decision_def DECISION_BLOCK_def DECISION_THROTTLE_def
      DECISION_FLAG_SALES_def)

theorem abuse_gate_priority_witness:
  "abuse_score (gate_user (3 / 20) 12)
     \<ge> abuse_threshold ((TenantConfig_init ''Tenant_A'')\<lparr> abuse_threshold := 1 / 10 \<rparr>)
   \<and> roi_score (gate_user (3 / 20) 12) > 10 \<and> abuse_score (gate_user (3 / 20) 12) < 2 / 10
   \<and> make_decision (gate_user (3 / 20) 12)
        ((TenantConfig_init ''Tenant_A'')\<lparr> abuse_threshold := 1 / 10 \<rparr>) ResourceMonitor_init
      = ((''THROTTLE'', [''High Volume but High Value'']), ResourceMonitor_init)
   \<and> make_decision (gate_user (4 / 5) (- 6)) (TenantConfig_init ''Tenant_A'') ResourceMonitor_init
      = ((''BLOCK'', [''Critical Abuse Score (0.80)'', ''Negative ROI (-6.00)'']),
         ResourceMonitor_init)"
proof -
  let ?t = "(TenantConfig_init ''Tenant_A'')\<lparr> abuse_threshold := 1 / 10 \<rparr>"
  have h1: "abuse_score (gate_user (3 / 20) 12) \<ge> abuse_threshold ?t"
    by (simp add: gate_user_def TenantConfig_init_def)
  have h2: "abuse_score (gate_user (4 / 5) (- 6)) \<ge> abuse_threshold (TenantConfig_init ''Tenant_A'')"
    by (simp add: gate_user_def TenantConfig_init_def)
  have f: "format_2f (4 / 5) = ''0.80''" "format_2f (- 6) = ''-6.00''"
    by (simp_all add: format_2f_def round_half_even_def digit_char_def Let_def)
  have g: "abuse_score (gate_user a r) = a" "roi_score (gate_user a r) = r" for a r
    by (simp_all add: gate_user_def)
  show ?thesis
    using abuse_gate_priority [OF h1, of ResourceMonitor_init]
      abuse_gate_priority [OF h2, of ResourceMonitor_init] h1
    by (simp add: g f DECISION_BLOCK_def DECISION_THROTTLE_def)
qed

subsection \<open>Event processing\<close>

text \<open>
  C1, as amended. For a tenant id that is not in the tenant registry,
  \<^verbatim>\<open>process_event\<close> fails with the \<^verbatim>\<open>KeyError\<close> of the lookup. Tenants, resource
  monitor, statistics and the profiles already registered are left as they
  were; a user id not yet registered has, however, received a fresh profile
  by then, which stays in the user registry.
\<close>

theorem process_event_unknown_tenant:
  "tenants s tid = None \<Longrightarrow>
   process_event clk rnd tid uid ty rid ut s =
     (Inl (KeyError tid),
      s\<lparr> users :=
           (if uid \<in> dom (users s) then users s
            else (users s)(uid \<mapsto>
                   TrialUser_init (t_created clk) (t_active clk) tid uid ut)) \<rparr>)"
  by (auto simp add: process_event_def dict_getitem_def Let_def split: option.splits)

theorem process_event_unknown_tenant_witness:
  "tenants TrialGuardEngine_init ''Tenant_X'' = None
   \<and> process_event example_clock rng_low ''Tenant_X'' ''u1'' ''LOGIN'' None ''NORMAL''
        TrialGuardEngine_init
      = (Inl (KeyError ''Tenant_X''),
         TrialGuardEngine_init\<lparr> users :=
           [''u1'' \<mapsto> TrialUser_init 10 10 ''Tenant_X'' ''u1'' ''NORMAL''] \<rparr>)"
proof -
  have h: "tenants TrialGuardEngine_init ''Tenant_X'' = None"
    by (simp add: TrialGuardEngine_init_def)
  have u: "users TrialGuardEngine_init = Map.empty"
    by (simp add: TrialGuardEngine_init_def)
  show ?thesis
    using process_event_unknown_tenant [OF h, of example_clock rng_low "''u1''" "''LOGIN''" None "''NORMAL''"] h
    by (simp add: u example_clock_def)
qed

text \<open>
  C1, as stated, fails: on the initial engine, an event for the unregistered
  tenant \<^verbatim>\<open>Tenant_X\<close> and the new user \<^verbatim>\<open>u1\<close> raises, and \<^verbatim>\<open>u1\<close> has a profile
  afterwards.
\<close>

theorem process_event_partial_state_counterexample:
  "tenants TrialGuardEngine_init ''Tenant_X'' = None
   \<and> users TrialGuardEngine_init ''u1'' = None
   \<and> fst (process_event example_clock rng_low ''Tenant_X'' ''u1'' ''LOGIN'' None ''NORMAL''
        TrialGuardEngine_init) = Inl (KeyError ''Tenant_X'')
   \<and> users (snd (process_event example_clock rng_low ''Tenant_X'' ''u1'' ''LOGIN'' None
        ''NORMAL'' TrialGuardEngine_init)) ''u1''
      = Some (TrialUser_init 10 10 ''Tenant_X'' ''u1'' ''NORMAL'')"
  by (simp add: process_event_def dict_getitem_def Let_def TrialGuardEngine_init_def
      example_clock_def)

text \<open>
  C2, as amended. The cost of an \<^verbatim>\<open>API_CALL\<close> event and the value of a
  \<^verbatim>\<open>CHECKOUT_ATTEMPT\<close> event are drawn with \<^verbatim>\<open>random.uniform\<close>. Two runs from the
  same engine state, with the same arguments and clock readings, derive the
  same cost and value, leave the same state and return the same decision
  whenever the draws they consume agree; for every other event type no draw
  is consumed and the run is determined by state, arguments and clock.
\<close>

theorem process_event_random_draws:
  "(ty = ''API_CALL'' \<longrightarrow> uniform_cost rnd = uniform_cost rnd')
   \<and> (ty = ''CHECKOUT_ATTEMPT'' \<longrightarrow> uniform_value rnd = uniform_value rnd') \<Longrightarrow>
   base_cost rnd ty = base_cost rnd' ty \<and> base_value rnd ty = base_value rnd' ty
   \<and> process_event clk rnd tid uid ty rid ut s = process_event clk rnd' tid uid ty rid ut s"
proof -
  assume h: "(ty = ''API_CALL'' \<longrightarrow> uniform_cost rnd = uniform_cost rnd')
   \<and> (ty = ''CHECKOUT_ATTEMPT'' \<longrightarrow> uniform_value rnd = uniform_value rnd')"
  then have c: "base_cost rnd ty = base_cost rnd' ty"
    by (simp add: base_cost_def)
  from h have v: "base_value rnd ty = base_value rnd' ty"
    by (simp add: base_value_def)
  have "process_event clk rnd tid uid ty rid ut s = process_event clk rnd' tid uid ty rid ut s"
    unfolding process_event_def c v ..
  with c v show ?thesis by blast
qed

theorem process_event_random_draws_witness:
  "process_event example_clock rng_low ''Tenant_A'' ''u1'' ''LOGIN'' None ''NORMAL''
     TrialGuardEngine_init
   = process_event example_clock rng_high ''Tenant_A'' ''u1'' ''LOGIN'' None ''NORMAL''
     TrialGuardEngine_init
   \<and> base_cost rng_low ''LOGIN'' = 5 / 100 \<and> base_cost rng_high ''LOGIN'' = 5 / 100"
proof -
  have "(''LOGIN'' = ''API_CALL'' \<longrightarrow> uniform_cost rng_low = uniform_cost rng_high)
   \<and> (''LOGIN'' = ''CHECKOUT_ATTEMPT'' \<longrightarrow> uniform_value rng_low = uniform_value rng_high)"
    by simp
  from process_event_random_draws [OF this] show ?thesis
    by (simp add: base_cost_def)
qed

lemma process_event_estimated_cost:
  "map_option estimated_cost
     (users (snd (process_event example_clock rnd ''Tenant_A'' ''u1'' ''API_CALL'' None
        ''NORMAL'' TrialGuardEngine_init)) ''u1'') = Some (uniform_cost rnd)"
  by (simp add: process_event_def dict_getitem_def Let_def TrialGuardEngine_init_def
      example_clock_def base_cost_def base_value_def resource_cost_def add_event_def
      calculate_scores_def TrialUser_init_def split_def)

text \<open>
  C2, as stated, fails: from the initial engine, with the same arguments and
  clock readings, an \<^verbatim>\<open>API_CALL\<close> event costs 0.1 under one draw and 0.5 under
  another, and the resulting states differ.
\<close>

theorem process_event_nondeterministic_counterexample:
  "base_cost rng_low ''API_CALL'' \<noteq> base_cost rng_high ''API_CALL''
   \<and> map_option estimated_cost
        (users (snd (process_event example_clock rng_low ''Tenant_A'' ''u1'' ''API_CALL'' None
           ''NORMAL'' TrialGuardEngine_init)) ''u1'') = Some (1 / 10)
   \<and> map_option estimated_cost
        (users (snd (process_event example_clock rng_high ''Tenant_A'' ''u1'' ''API_CALL'' None
           ''NORMAL'' TrialGuardEngine_init)) ''u1'') = Some (5 / 10)
   \<and> process_event example_clock rng_low ''Tenant_A'' ''u1'' ''API_CALL'' None ''NORMAL''
        TrialGuardEngine_init
      \<noteq> process_event example_clock rng_high ''Tenant_A'' ''u1'' ''API_CALL'' None ''NORMAL''
        TrialGuardEngine_init"
proof -
  have a: "base_cost rng_low ''API_CALL'' \<noteq> base_cost rng_high ''API_CALL''"
    by (simp add: base_cost_def rng_low_def rng_high_def)
  have l: "map_option estimated_cost
        (users (snd (process_event example_clock rng_low ''Tenant_A'' ''u1'' ''API_CALL'' None
           ''NORMAL'' TrialGuardEngine_init)) ''u1'') = Some (1 / 10)"
    by (simp add: process_event_estimated_cost rng_low_def)
  have h: "map_option estimated_cost
        (users (snd (process_event example_clock rng_high ''Tenant_A'' ''u1'' ''API_CALL'' None
           ''NORMAL'' TrialGuardEngine_init)) ''u1'') = Some (5 / 10)"
    by (simp add: process_event_estimated_cost rng_high_def)
  have "process_event example_clock rng_low ''Tenant_A'' ''u1'' ''API_CALL'' None ''NORMAL''
        TrialGuardEngine_init
      \<noteq> process_event example_clock rng_high ''Tenant_A'' ''u1'' ''API_CALL'' None ''NORMAL''
        TrialGuardEngine_init"
  proof
    assume "process_event example_clock rng_low ''Tenant_A'' ''u1'' ''API_CALL'' None ''NORMAL''
        TrialGuardEngine_init
      = process_event example_clock rng_high ''Tenant_A'' ''u1'' ''API_CALL'' None ''NORMAL''
        TrialGuardEngine_init"
    with l h show False by simp
  qed
  with a l h show ?thesis by blast
qed

end
